theory Spec2Isabelle
  imports Main "HOL-Library.Word"
begin

section \<open>The peer entity of the management server (management/server/peer/peer.go)\<close>

text \<open>
  The Go code works on \<^verbatim>\<open>*Peer\<close> and \<^verbatim>\<open>*PeerStatus\<close> pointers and on
  \<^verbatim>\<open>net.IP\<close> byte slices, and several properties of it are about which objects are shared.
  The embedding therefore keeps an explicit store: one list of cells per kind of heap
  object, an address being an index into the list. A pointer is an optional address (nil is
  \<open>None\<close>), an allocation appends a cell, and every access the runtime would stop with a
  panic is a branch returning \<open>Inl\<close>.
\<close>

subsection \<open>Pointers, slices and panics\<close>

type_synonym addr = nat
type_synonym ptr = "addr option"
type_synonym byte = "8 word"

datatype panic =
    NilDereference      \<comment> \<open>invalid memory address or nil pointer dereference\<close>
  | IndexOutOfRange     \<comment> \<open>index out of range on a slice\<close>
  | InvalidAddress      \<comment> \<open>an address outside the store; no Go value holds one\<close>

text \<open>A Go slice header: the backing array, the offset of its first element, length, capacity.
  The nil slice has no backing array.\<close>

record slice =
  sl_array :: ptr
  sl_off :: nat
  sl_len :: nat
  sl_cap :: nat

definition load :: "'a list \<Rightarrow> ptr \<Rightarrow> panic + 'a" where
  "load cells p =
     (case p of
        None \<Rightarrow> Inl NilDereference
      | Some a \<Rightarrow> if a < length cells then Inr (cells ! a) else Inl InvalidAddress)"

definition modify :: "'a list \<Rightarrow> ptr \<Rightarrow> ('a \<Rightarrow> 'a) \<Rightarrow> panic + 'a list" where
  "modify cells p f =
     (case p of
        None \<Rightarrow> Inl NilDereference
      | Some a \<Rightarrow> if a < length cells then Inr (cells[a := f (cells ! a)]) else Inl InvalidAddress)"

subsection \<open>The data model\<close>

text \<open>
  \<^verbatim>\<open>time.Time\<close> and the operations of package \<^verbatim>\<open>time\<close> belong to the Go library, not
  to this file. The type of instants is a parameter \<open>'t\<close> of the model, the operations the
  code calls are the fields of \<open>time_pkg\<close>, and the reading of the clock by
  \<^verbatim>\<open>time.Now()\<close> is an argument \<open>now\<close> of the functions that make it.
  \<^verbatim>\<open>time.Duration\<close> is an \<^verbatim>\<open>int64\<close> count of nanoseconds.
\<close>

type_synonym Duration = "64 word"

record 't time_pkg =
  time_Add :: "'t \<Rightarrow> Duration \<Rightarrow> 't"
  time_Sub :: "'t \<Rightarrow> 't \<Rightarrow> Duration"
  time_UTC :: "'t \<Rightarrow> 't"

record 't PeerStatus =
  LastSeen :: 't
  Connected :: bool
  LoginExpired :: bool
  RequiresApproval :: bool

record Location =
  ConnectionIP :: slice
  CountryCode :: string
  CityName :: string
  GeoNameID :: "64 word"

record PeerSystemMeta =
  Hostname :: string
  GoOS :: string
  Kernel :: string
  Core :: string
  Platform :: string
  OS :: string
  OSVersion :: string
  WtVersion :: string
  UIVersion :: string
  KernelVersion :: string

record 't Peer =
  ID :: string
  AccountID :: string
  Key :: string
  SetupKey :: string
  IP :: slice
  Meta :: PeerSystemMeta
  Name :: string
  DNSLabel :: string
  Status :: ptr
  UserID :: string
  SSHKey :: string
  SSHEnabled :: bool
  LoginExpirationEnabled :: bool
  LastLogin :: 't
  Ephemeral :: bool
  Location :: Location

record 't store =
  peers :: "'t Peer list"
  statuses :: "'t PeerStatus list"
  byte_arrays :: "byte list list"

subsection \<open>The operations\<close>

definition isEqual :: "PeerSystemMeta \<Rightarrow> PeerSystemMeta \<Rightarrow> bool" where
  "isEqual p other \<longleftrightarrow>
     Hostname p = Hostname other \<and>
     GoOS p = GoOS other \<and>
     Kernel p = Kernel other \<and>
     KernelVersion p = KernelVersion other \<and>
     Core p = Core other \<and>
     Platform p = Platform other \<and>
     OS p = OS other \<and>
     OSVersion p = OSVersion other \<and>
     WtVersion p = WtVersion other \<and>
     UIVersion p = UIVersion other"

definition AddedWithSSOLogin :: "'t store \<Rightarrow> ptr \<Rightarrow> panic + bool" where
  "AddedWithSSOLogin s p =
     (case load (peers s) p of
        Inl e \<Rightarrow> Inl e
      | Inr pr \<Rightarrow> Inr (UserID pr \<noteq> ''''))"

text \<open>\<^verbatim>\<open>func (p *PeerStatus) Copy() *PeerStatus\<close>: a new cell with the four fields.\<close>

definition PeerStatus_Copy :: "'t store \<Rightarrow> ptr \<Rightarrow> panic + (ptr \<times> 't store)" where
  "PeerStatus_Copy s p =
     (case load (statuses s) p of
        Inl e \<Rightarrow> Inl e
      | Inr st \<Rightarrow>
          Inr (Some (length (statuses s)),
               s\<lparr>statuses := statuses s @
                   [\<lparr>LastSeen = LastSeen st,
                     Connected = Connected st,
                     LoginExpired = LoginExpired st,
                     RequiresApproval = RequiresApproval st\<rparr>]\<rparr>))"

text \<open>\<^verbatim>\<open>func (p *Peer) Copy() *Peer\<close>: the status is copied when there is one; every other
  field, the two slice headers among them, is assigned as it is.\<close>

definition Peer_Copy :: "'t store \<Rightarrow> ptr \<Rightarrow> panic + (ptr \<times> 't store)" where
  "Peer_Copy s p =
     (case load (peers s) p of
        Inl e \<Rightarrow> Inl e
      | Inr pr \<Rightarrow>
          (case (if Status pr \<noteq> None then PeerStatus_Copy s (Status pr)
                 else Inr (Status pr, s)) of
             Inl e \<Rightarrow> Inl e
           | Inr (peerStatus, s1) \<Rightarrow>
               Inr (Some (length (peers s1)),
                    s1\<lparr>peers := peers s1 @
                        [\<lparr>ID = ID pr,
                          AccountID = AccountID pr,
                          Key = Key pr,
                          SetupKey = SetupKey pr,
                          IP = IP pr,
                          Meta = Meta pr,
                          Name = Name pr,
                          DNSLabel = DNSLabel pr,
                          Status = peerStatus,
                          UserID = UserID pr,
                          SSHKey = SSHKey pr,
                          SSHEnabled = SSHEnabled pr,
                          LoginExpirationEnabled = LoginExpirationEnabled pr,
                          LastLogin = LastLogin pr,
                          Ephemeral = Ephemeral pr,
                          Location = Location pr\<rparr>]\<rparr>)))"

text \<open>\<^verbatim>\<open>func (p *Peer) UpdateMetaIfNew(meta PeerSystemMeta) bool\<close>; \<open>meta\<close> is passed by
  value, so the adjustment of its UIVersion is local.\<close>

definition UpdateMetaIfNew :: "'t store \<Rightarrow> ptr \<Rightarrow> PeerSystemMeta \<Rightarrow> panic + (bool \<times> 't store)" where
  "UpdateMetaIfNew s p meta =
     (case load (peers s) p of
        Inl e \<Rightarrow> Inl e
      | Inr pr \<Rightarrow>
          (let meta' = (if UIVersion meta = '''' then meta\<lparr>UIVersion := UIVersion (Meta pr)\<rparr>
                        else meta)
           in if isEqual (Meta pr) meta' then Inr (False, s)
              else (case modify (peers s) p (\<lambda>r. r\<lparr>Meta := meta'\<rparr>) of
                      Inl e \<Rightarrow> Inl e
                    | Inr ps \<Rightarrow> Inr (True, s\<lparr>peers := ps\<rparr>))))"

text \<open>\<^verbatim>\<open>func (p *Peer) MarkLoginExpired(expired bool)\<close>: the two field writes go to the new
  cell, then the peer's pointer is redirected to it.\<close>

definition MarkLoginExpired :: "'t store \<Rightarrow> ptr \<Rightarrow> bool \<Rightarrow> panic + 't store" where
  "MarkLoginExpired s p expired =
     (case load (peers s) p of
        Inl e \<Rightarrow> Inl e
      | Inr pr \<Rightarrow>
          (case PeerStatus_Copy s (Status pr) of
             Inl e \<Rightarrow> Inl e
           | Inr (newStatus, s1) \<Rightarrow>
               (case modify (statuses s1) newStatus (\<lambda>st. st\<lparr>LoginExpired := expired\<rparr>) of
                  Inl e \<Rightarrow> Inl e
                | Inr c2 \<Rightarrow>
                    (case (if expired
                           then modify c2 newStatus (\<lambda>st. st\<lparr>Connected := False\<rparr>)
                           else Inr c2) of
                       Inl e \<Rightarrow> Inl e
                     | Inr c3 \<Rightarrow>
                         (case modify (peers s1) p (\<lambda>r. r\<lparr>Status := newStatus\<rparr>) of
                            Inl e \<Rightarrow> Inl e
                          | Inr ps \<Rightarrow> Inr (s1\<lparr>statuses := c3, peers := ps\<rparr>))))))"

text \<open>\<^verbatim>\<open>func (p *Peer) LoginExpired(expiresIn time.Duration) (bool, time.Duration)\<close>;
  the comparison \<^verbatim>\<open>timeLeft <= 0\<close> is the signed one of \<^verbatim>\<open>int64\<close>.\<close>

definition Peer_LoginExpired ::
    "'t time_pkg \<Rightarrow> 't \<Rightarrow> 't store \<Rightarrow> ptr \<Rightarrow> Duration \<Rightarrow> panic + (bool \<times> Duration)" where
  "Peer_LoginExpired tm now s p expiresIn =
     (case AddedWithSSOLogin s p of
        Inl e \<Rightarrow> Inl e
      | Inr sso \<Rightarrow>
          (case load (peers s) p of
             Inl e \<Rightarrow> Inl e
           | Inr pr \<Rightarrow>
               if \<not> sso \<or> \<not> LoginExpirationEnabled pr then Inr (False, 0)
               else (let expiresAt = time_Add tm (LastLogin pr) expiresIn;
                         timeLeft = time_Sub tm expiresAt now
                     in Inr (sint timeLeft \<le> 0, timeLeft))))"

text \<open>\<^verbatim>\<open>func (p *Peer) FQDN(dnsDomain string) string\<close>; the receiver is read only after the
  test of \<open>dnsDomain\<close>.\<close>

definition Peer_FQDN :: "'t store \<Rightarrow> ptr \<Rightarrow> string \<Rightarrow> panic + string" where
  "Peer_FQDN s p dnsDomain =
     (if dnsDomain = '''' then Inr ''''
      else (case load (peers s) p of
              Inl e \<Rightarrow> Inl e
            | Inr pr \<Rightarrow> Inr (DNSLabel pr @ ''.'' @ dnsDomain)))"

text \<open>\<^verbatim>\<open>func (p *Peer) UpdateLastLogin() *Peer\<close>; the result is the receiver.\<close>

definition UpdateLastLogin :: "'t time_pkg \<Rightarrow> 't \<Rightarrow> 't store \<Rightarrow> ptr \<Rightarrow> panic + (ptr \<times> 't store)" where
  "UpdateLastLogin tm now s p =
     (case modify (peers s) p (\<lambda>r. r\<lparr>LastLogin := time_UTC tm now\<rparr>) of
        Inl e \<Rightarrow> Inl e
      | Inr ps0 \<Rightarrow>
          (let s0 = s\<lparr>peers := ps0\<rparr> in
           case load (peers s0) p of
             Inl e \<Rightarrow> Inl e
           | Inr pr \<Rightarrow>
               (case PeerStatus_Copy s0 (Status pr) of
                  Inl e \<Rightarrow> Inl e
                | Inr (newStatus, s1) \<Rightarrow>
                    (case modify (statuses s1) newStatus (\<lambda>st. st\<lparr>LoginExpired := False\<rparr>) of
                       Inl e \<Rightarrow> Inl e
                     | Inr c2 \<Rightarrow>
                         (case modify (peers s1) p (\<lambda>r. r\<lparr>Status := newStatus\<rparr>) of
                            Inl e \<Rightarrow> Inl e
                          | Inr ps \<Rightarrow> Inr (p, s1\<lparr>statuses := c2, peers := ps\<rparr>))))))"

subsection \<open>Observing and mutating a peer from outside\<close>

text \<open>The bytes seen through a slice, and the Go statement \<^verbatim>\<open>sl[i] = b\<close>, which writes into
  the backing array and panics on an index that is not below the length.\<close>

definition slice_bytes :: "byte list list \<Rightarrow> slice \<Rightarrow> panic + byte list" where
  "slice_bytes arrays sl =
     (case sl_array sl of
        None \<Rightarrow> if sl_len sl = 0 then Inr [] else Inl InvalidAddress
      | Some a \<Rightarrow>
          if a < length arrays \<and> sl_off sl + sl_len sl \<le> length (arrays ! a)
          then Inr (take (sl_len sl) (drop (sl_off sl) (arrays ! a)))
          else Inl InvalidAddress)"

definition slice_set :: "byte list list \<Rightarrow> slice \<Rightarrow> nat \<Rightarrow> byte \<Rightarrow> panic + byte list list" where
  "slice_set arrays sl i b =
     (if sl_len sl \<le> i then Inl IndexOutOfRange
      else (case sl_array sl of
              None \<Rightarrow> Inl InvalidAddress
            | Some a \<Rightarrow>
                if a < length arrays \<and> sl_off sl + sl_len sl \<le> length (arrays ! a)
                then Inr (arrays[a := (arrays ! a)[sl_off sl + i := b]])
                else Inl InvalidAddress))"

text \<open>
  What a holder of the pointer \<open>q\<close> can observe of the peer: the fields of \<^verbatim>\<open>*q\<close>, the
  status snapshot its Status points to (if any), and the bytes of its two addresses.
\<close>

definition deref_Status :: "'t PeerStatus list \<Rightarrow> ptr \<Rightarrow> panic + 't PeerStatus option" where
  "deref_Status cells q =
     (case q of
        None \<Rightarrow> Inr None
      | Some a \<Rightarrow> if a < length cells then Inr (Some (cells ! a)) else Inl InvalidAddress)"

type_synonym 't Peer_view = "'t Peer \<times> 't PeerStatus option \<times> byte list \<times> byte list"

definition Peer_view :: "'t store \<Rightarrow> ptr \<Rightarrow> panic + 't Peer_view" where
  "Peer_view s q =
     (case load (peers s) q of
        Inl e \<Rightarrow> Inl e
      | Inr pr \<Rightarrow>
          (case deref_Status (statuses s) (Status pr) of
             Inl e \<Rightarrow> Inl e
           | Inr st \<Rightarrow>
               (case slice_bytes (byte_arrays s) (IP pr) of
                  Inl e \<Rightarrow> Inl e
                | Inr ip \<Rightarrow>
                    (case slice_bytes (byte_arrays s) (ConnectionIP (Location pr)) of
                       Inl e \<Rightarrow> Inl e
                     | Inr cip \<Rightarrow> Inr (pr, st, ip, cip)))))"

text \<open>
  The statements by which a holder of \<open>q\<close> mutates the peer: \<^verbatim>\<open>q.F = v\<close> on a field of the
  peer (\<open>f\<close> is the record update), \<^verbatim>\<open>q.Status.F = v\<close> on a field of the pointed-to
  status, and \<^verbatim>\<open>q.IP[i] = b\<close> on a byte of the address.
\<close>

definition assign_field :: "'t store \<Rightarrow> ptr \<Rightarrow> ('t Peer \<Rightarrow> 't Peer) \<Rightarrow> panic + 't store" where
  "assign_field s q f =
     (case modify (peers s) q f of
        Inl e \<Rightarrow> Inl e
      | Inr ps \<Rightarrow> Inr (s\<lparr>peers := ps\<rparr>))"

definition assign_Status_field ::
    "'t store \<Rightarrow> ptr \<Rightarrow> ('t PeerStatus \<Rightarrow> 't PeerStatus) \<Rightarrow> panic + 't store" where
  "assign_Status_field s q g =
     (case load (peers s) q of
        Inl e \<Rightarrow> Inl e
      | Inr pr \<Rightarrow>
          (case modify (statuses s) (Status pr) g of
             Inl e \<Rightarrow> Inl e
           | Inr c \<Rightarrow> Inr (s\<lparr>statuses := c\<rparr>)))"

definition assign_IP_byte :: "'t store \<Rightarrow> ptr \<Rightarrow> nat \<Rightarrow> byte \<Rightarrow> panic + 't store" where
  "assign_IP_byte s q i b =
     (case load (peers s) q of
        Inl e \<Rightarrow> Inl e
      | Inr pr \<Rightarrow>
          (case slice_set (byte_arrays s) (IP pr) i b of
             Inl e \<Rightarrow> Inl e
           | Inr arrs \<Rightarrow> Inr (s\<lparr>byte_arrays := arrs\<rparr>)))"

text \<open>The bytes of \<^verbatim>\<open>q.IP\<close>, and the program
  \<^verbatim>\<open>c := p.Copy(); c.IP[i] = b\<close> followed by a reading of the bytes of \<^verbatim>\<open>p.IP\<close>.\<close>

definition IP_bytes :: "'t store \<Rightarrow> ptr \<Rightarrow> panic + byte list" where
  "IP_bytes s q =
     (case load (peers s) q of
        Inl e \<Rightarrow> Inl e
      | Inr pr \<Rightarrow> slice_bytes (byte_arrays s) (IP pr))"

definition IP_after_copy_write :: "'t store \<Rightarrow> ptr \<Rightarrow> nat \<Rightarrow> byte \<Rightarrow> panic + byte list" where
  "IP_after_copy_write s p i b =
     (case Peer_Copy s p of
        Inl e \<Rightarrow> Inl e
      | Inr (c, s1) \<Rightarrow>
          (case assign_IP_byte s1 c i b of
             Inl e \<Rightarrow> Inl e
           | Inr s2 \<Rightarrow> IP_bytes s2 p))"

text \<open>A statement ran without a panic and the peer at \<open>q\<close> is then observed as \<open>v\<close>.\<close>

definition leaves :: "panic + 't store \<Rightarrow> ptr \<Rightarrow> 't Peer_view \<Rightarrow> bool" where
  "leaves r q v = (case r of Inl e \<Rightarrow> False | Inr t \<Rightarrow> Peer_view t q = Inr v)"

text \<open>The incoming metadata after the first statement of \<^verbatim>\<open>UpdateMetaIfNew\<close>, given the
  stored one.\<close>

definition adjusted :: "PeerSystemMeta \<Rightarrow> PeerSystemMeta \<Rightarrow> PeerSystemMeta" where
  "adjusted stored m = (if UIVersion m = '''' then m\<lparr>UIVersion := UIVersion stored\<rparr> else m)"

subsection \<open>An instance of the time package, and a store to run the operations on\<close>

text \<open>
  The operations of the Go library as its documentation describes them, on instants counted
  in nanoseconds since the Unix epoch. \<^verbatim>\<open>t.Add(d)\<close> is the instant \<open>t + d\<close>.
  \<^verbatim>\<open>t.Sub(u)\<close> is the duration \<open>t - u\<close>, and where that exceeds the largest or the
  smallest value a Duration can hold, the largest or the smallest Duration is returned.
  \<^verbatim>\<open>t.UTC()\<close> is the same instant. The zero \<^verbatim>\<open>Time\<close>, January 1 of year 1, is
  62135596800 seconds before the epoch.
\<close>

definition clamp_Duration :: "int \<Rightarrow> Duration" where
  "clamp_Duration x =
     (if x < - (2 ^ 63) then word_of_int (- (2 ^ 63))
      else if 2 ^ 63 - 1 < x then word_of_int (2 ^ 63 - 1)
      else word_of_int x)"

definition unix_time :: "int time_pkg" where
  "unix_time =
     \<lparr>time_Add = (\<lambda>t d. t + sint d),
      time_Sub = (\<lambda>t u. clamp_Duration (t - u)),
      time_UTC = (\<lambda>t. t)\<rparr>"

definition meta0 :: PeerSystemMeta where
  "meta0 =
     \<lparr>Hostname = ''host-a'', GoOS = ''linux'', Kernel = ''Linux'', Core = ''22.04'',
      Platform = ''x86_64'', OS = ''Ubuntu'', OSVersion = ''22.04'', WtVersion = ''0.25.0'',
      UIVersion = ''1.2'', KernelVersion = ''5.15''\<rparr>"

definition status0 :: "int PeerStatus" where
  "status0 = \<lparr>LastSeen = 900, Connected = True, LoginExpired = True, RequiresApproval = False\<rparr>"

definition peer0 :: "int Peer" where
  "peer0 =
     \<lparr>ID = ''peer-1'', AccountID = ''acc-1'', Key = ''wg-key'', SetupKey = '''',
      IP = \<lparr>sl_array = Some 0, sl_off = 0, sl_len = 4, sl_cap = 4\<rparr>,
      Meta = meta0, Name = ''host-a'', DNSLabel = ''host-a'', Status = Some 0,
      UserID = ''user-1'', SSHKey = '''', SSHEnabled = False, LoginExpirationEnabled = True,
      LastLogin = 1000, Ephemeral = False,
      Location = \<lparr>ConnectionIP = \<lparr>sl_array = Some 1, sl_off = 0, sl_len = 4, sl_cap = 4\<rparr>,
                   CountryCode = ''DE'', CityName = ''Berlin'', GeoNameID = 2950159\<rparr>\<rparr>"

definition store0 :: "int store" where
  "store0 = \<lparr>peers = [peer0], statuses = [status0],
             byte_arrays = [[100, 64, 0, 1], [203, 0, 113, 7]]\<rparr>"

section \<open>Properties\<close>

subsection \<open>Auxiliary facts\<close>

lemma isEqual_iff: "isEqual a b \<longleftrightarrow> a = b"
  for a b :: PeerSystemMeta
  by (cases a, cases b) (auto simp: isEqual_def)

lemma load_InrE:
  assumes "load cells p = Inr x"
  obtains a where "p = Some a" and "a < length cells" and "cells ! a = x"
  using assms by (cases p) (auto simp: load_def split: if_splits)

lemma load_Some [simp]:
  "load cells (Some a) = (if a < length cells then Inr (cells ! a) else Inl InvalidAddress)"
  by (simp add: load_def)

lemma modify_Some [simp]:
  "modify cells (Some a) f =
     (if a < length cells then Inr (cells[a := f (cells ! a)]) else Inl InvalidAddress)"
  by (simp add: modify_def)

lemma deref_Status_None [simp]: "deref_Status cells None = Inr None"
  by (simp add: deref_Status_def)

lemma deref_Status_Some [simp]:
  "deref_Status cells (Some b) =
     (if b < length cells then Inr (Some (cells ! b)) else Inl InvalidAddress)"
  by (simp add: deref_Status_def)

lemma PeerStatus_Copy_ok:
  assumes "load (statuses s) q = Inr st"
  shows "PeerStatus_Copy s q =
           Inr (Some (length (statuses s)), s\<lparr>statuses := statuses s @ [st]\<rparr>)"
  using assms by (cases st) (simp add: PeerStatus_Copy_def)

lemma Peer_rebuild:
  "\<lparr>ID = ID pr, AccountID = AccountID pr, Key = Key pr, SetupKey = SetupKey pr, IP = IP pr,
    Meta = Meta pr, Name = Name pr, DNSLabel = DNSLabel pr, Status = x, UserID = UserID pr,
    SSHKey = SSHKey pr, SSHEnabled = SSHEnabled pr,
    LoginExpirationEnabled = LoginExpirationEnabled pr, LastLogin = LastLogin pr,
    Ephemeral = Ephemeral pr, Location = Location pr\<rparr> = pr\<lparr>Status := x\<rparr>"
  for pr :: "'t Peer"
  by (cases pr) simp

lemma Peer_Copy_nil_Status:
  assumes "a < length (peers s)" and "Status (peers s ! a) = None"
  shows "Peer_Copy s (Some a) =
           Inr (Some (length (peers s)), s\<lparr>peers := peers s @ [peers s ! a]\<rparr>)"
  using assms by (simp add: Peer_Copy_def Peer_rebuild)

lemma Peer_Copy_with_Status:
  assumes "a < length (peers s)" and "Status (peers s ! a) = Some b"
    and "b < length (statuses s)"
  shows "Peer_Copy s (Some a) =
           Inr (Some (length (peers s)),
                s\<lparr>statuses := statuses s @ [statuses s ! b],
                  peers := peers s @ [(peers s ! a)\<lparr>Status := Some (length (statuses s))\<rparr>]\<rparr>)"
  using assms by (simp add: Peer_Copy_def Peer_rebuild PeerStatus_Copy_ok)

lemma Peer_view_InrE:
  assumes "Peer_view s q = Inr (pr, st, ip, cip)"
  obtains a where "q = Some a" and "a < length (peers s)" and "peers s ! a = pr"
    and "deref_Status (statuses s) (Status pr) = Inr st"
    and "slice_bytes (byte_arrays s) (IP pr) = Inr ip"
    and "slice_bytes (byte_arrays s) (ConnectionIP (Location pr)) = Inr cip"
proof -
  from assms obtain pr' where l: "load (peers s) q = Inr pr'"
    by (auto simp: Peer_view_def split: sum.splits)
  with assms have "pr' = pr" by (auto simp: Peer_view_def split: sum.splits)
  with l assms have rest: "deref_Status (statuses s) (Status pr) = Inr st"
    "slice_bytes (byte_arrays s) (IP pr) = Inr ip"
    "slice_bytes (byte_arrays s) (ConnectionIP (Location pr)) = Inr cip"
    by (auto simp: Peer_view_def split: sum.splits)
  from l \<open>pr' = pr\<close> obtain a where "q = Some a" "a < length (peers s)" "peers s ! a = pr"
    by (auto elim: load_InrE)
  with rest that show thesis by blast
qed

lemma UpdateMetaIfNew_eval:
  assumes "a < length (peers s)"
  shows "UpdateMetaIfNew s (Some a) m =
     (if adjusted (Meta (peers s ! a)) m = Meta (peers s ! a) then Inr (False, s)
      else Inr (True, s\<lparr>peers := (peers s)[a := (peers s ! a)
                          \<lparr>Meta := adjusted (Meta (peers s ! a)) m\<rparr>]\<rparr>))"
  unfolding UpdateMetaIfNew_def isEqual_iff adjusted_def using assms
  by (simp add: Let_def eq_commute[of "Meta (peers s ! a)"])

lemma adjusted_idem: "adjusted (adjusted stored m) m = adjusted stored m"
  by (simp add: adjusted_def)

lemma Copy_nil_case:
  assumes v: "Peer_view s p = Inr (pr, st, ip, cip)" and nil: "Status pr = None"
  shows "\<exists>c s' pc.
      Peer_Copy s p = Inr (c, s') \<and> c \<noteq> p
    \<and> c = Some (length (peers s))
    \<and> peers s' = peers s @ [pc]
    \<and> statuses s' = statuses s @ (case st of None \<Rightarrow> [] | Some x \<Rightarrow> [x])
    \<and> byte_arrays s' = byte_arrays s
    \<and> Peer_view s' p = Inr (pr, st, ip, cip)
    \<and> Peer_view s' c = Inr (pc, st, ip, cip)
    \<and> pc = pr\<lparr>Status := Status pc\<rparr>
    \<and> Status pc = None
    \<and> (\<forall>f. leaves (assign_field s' c f) p (pr, st, ip, cip))
    \<and> (\<forall>f. leaves (assign_field s' p f) c (pc, st, ip, cip))"
proof -
  from v obtain a where a: "p = Some a" "a < length (peers s)" "peers s ! a = pr"
    and d: "deref_Status (statuses s) (Status pr) = Inr st"
    and i: "slice_bytes (byte_arrays s) (IP pr) = Inr ip"
    and c: "slice_bytes (byte_arrays s) (ConnectionIP (Location pr)) = Inr cip"
    by (rule Peer_view_InrE)
  from d nil have st: "st = None" by simp
  let ?s' = "s\<lparr>peers := peers s @ [pr]\<rparr>"
  let ?c = "Some (length (peers s))"
  have cp: "Peer_Copy s p = Inr (?c, ?s')"
    using a nil by (simp add: Peer_Copy_nil_Status)
  have ne: "?c \<noteq> p" using a by simp
  have fr: "peers ?s' = peers s @ [pr]"
    "statuses ?s' = statuses s @ (case st of None \<Rightarrow> [] | Some x \<Rightarrow> [x])"
    "byte_arrays ?s' = byte_arrays s"
    using st by simp_all
  have vp: "Peer_view ?s' p = Inr (pr, st, ip, cip)"
    using a d i c by (simp add: Peer_view_def nth_append)
  have vc: "Peer_view ?s' ?c = Inr (pr, st, ip, cip)"
    using a d i c by (simp add: Peer_view_def nth_append)
  have m1: "leaves (assign_field ?s' ?c f) p (pr, st, ip, cip)" for f
    using a d i c by (simp add: leaves_def assign_field_def Peer_view_def nth_append)
  have m2: "leaves (assign_field ?s' p f) ?c (pr, st, ip, cip)" for f
    using a d i c by (simp add: leaves_def assign_field_def Peer_view_def nth_append)
  have e: "pr = pr\<lparr>Status := Status pr\<rparr>" by simp
  show ?thesis
    apply (rule exI [of _ ?c], rule exI [of _ ?s'], rule exI [of _ pr])
    using cp ne fr vp vc e nil m1 m2 by blast
qed

lemma Copy_Status_case:
  assumes v: "Peer_view s p = Inr (pr, st, ip, cip)" and some: "Status pr = Some b"
  shows "\<exists>c s' pc.
      Peer_Copy s p = Inr (c, s') \<and> c \<noteq> p
    \<and> c = Some (length (peers s))
    \<and> peers s' = peers s @ [pc]
    \<and> statuses s' = statuses s @ (case st of None \<Rightarrow> [] | Some x \<Rightarrow> [x])
    \<and> byte_arrays s' = byte_arrays s
    \<and> Peer_view s' p = Inr (pr, st, ip, cip)
    \<and> Peer_view s' c = Inr (pc, st, ip, cip)
    \<and> pc = pr\<lparr>Status := Status pc\<rparr>
    \<and> Status pc = Some (length (statuses s)) \<and> Status pc \<noteq> Status pr
    \<and> (\<forall>f. leaves (assign_field s' c f) p (pr, st, ip, cip))
    \<and> (\<forall>f. leaves (assign_field s' p f) c (pc, st, ip, cip))
    \<and> (\<forall>g. leaves (assign_Status_field s' c g) p (pr, st, ip, cip))
    \<and> (\<forall>g. leaves (assign_Status_field s' p g) c (pc, st, ip, cip))"
proof -
  from v obtain a where a: "p = Some a" "a < length (peers s)" "peers s ! a = pr"
    and d: "deref_Status (statuses s) (Status pr) = Inr st"
    and i: "slice_bytes (byte_arrays s) (IP pr) = Inr ip"
    and c: "slice_bytes (byte_arrays s) (ConnectionIP (Location pr)) = Inr cip"
    by (rule Peer_view_InrE)
  from d some have b: "b < length (statuses s)" "st = Some (statuses s ! b)"
    by (auto split: if_splits)
  let ?pc = "pr\<lparr>Status := Some (length (statuses s))\<rparr>"
  let ?s' = "s\<lparr>statuses := statuses s @ [statuses s ! b], peers := peers s @ [?pc]\<rparr>"
  let ?c = "Some (length (peers s))"
  let ?v = "(pr, st, ip, cip)"
  let ?w = "(?pc, st, ip, cip)"
  have cp: "Peer_Copy s p = Inr (?c, ?s')"
    using a some b by (simp add: Peer_Copy_with_Status)
  have ne: "?c \<noteq> p" using a by simp
  have fr: "peers ?s' = peers s @ [?pc]"
    "statuses ?s' = statuses s @ (case st of None \<Rightarrow> [] | Some x \<Rightarrow> [x])"
    "byte_arrays ?s' = byte_arrays s"
    using b by simp_all
  have vp: "Peer_view ?s' p = Inr ?v"
    using a b some i c by (simp add: Peer_view_def nth_append)
  have vc: "Peer_view ?s' ?c = Inr ?w"
    using a b some i c by (simp add: Peer_view_def nth_append)
  have m1: "leaves (assign_field ?s' ?c f) p ?v" for f
    using a b some i c by (simp add: leaves_def assign_field_def Peer_view_def nth_append)
  have m2: "leaves (assign_field ?s' p f) ?c ?w" for f
    using a b some i c by (simp add: leaves_def assign_field_def Peer_view_def nth_append)
  have m3: "leaves (assign_Status_field ?s' ?c g) p ?v" for g
    using a b some i c
    by (simp add: leaves_def assign_Status_field_def Peer_view_def nth_append)
  have m4: "leaves (assign_Status_field ?s' p g) ?c ?w" for g
    using a b some i c
    by (simp add: leaves_def assign_Status_field_def Peer_view_def nth_append)
  have e: "?pc = pr\<lparr>Status := Status ?pc\<rparr>" by simp
  have f: "Status ?pc = Some (length (statuses s))" "Status ?pc \<noteq> Status pr"
    using some b by simp_all
  show ?thesis
    apply (rule exI [of _ ?c], rule exI [of _ ?s'], rule exI [of _ ?pc])
    using cp ne fr vp vc e f m1 m2 m3 m4 by blast
qed

lemma sint_clamp_Duration:
  "sint (clamp_Duration d) = max (- (2 ^ 63)) (min (2 ^ 63 - 1) d)"
proof -
  have in_range: "sint (word_of_int k :: Duration) = k"
    if "- (2 ^ 63) \<le> k" "k < 2 ^ 63" for k
    using that by (simp add: sint_sbintrunc' signed_take_bit_int_eq_self)
  consider "d < - (2 ^ 63)" | "- (2 ^ 63) \<le> d" "d < 2 ^ 63" | "2 ^ 63 \<le> d"
    by linarith
  then show ?thesis
  proof cases
    case 1
    then show ?thesis by (simp add: clamp_Duration_def in_range)
  next
    case 2
    then show ?thesis by (simp add: clamp_Duration_def in_range)
  next
    case 3
    then show ?thesis by (simp add: clamp_Duration_def in_range)
  qed
qed

lemma Peer_LoginExpired_enabled:
  assumes "load (peers s) p = Inr pr"
      and "UserID pr \<noteq> ''''" and "LoginExpirationEnabled pr"
  shows "Peer_LoginExpired tm now s p expiresIn =
           Inr (sint (time_Sub tm (time_Add tm (LastLogin pr) expiresIn) now) \<le> 0,
                time_Sub tm (time_Add tm (LastLogin pr) expiresIn) now)"
  using assms by (auto simp: Peer_LoginExpired_def AddedWithSSOLogin_def Let_def)

lemma store0_view:
  "Peer_view store0 (Some 0) = Inr (peer0, Some status0, [100, 64, 0, 1], [203, 0, 113, 7])"
  by (simp add: Peer_view_def slice_bytes_def store0_def peer0_def)

lemma store0_peer: "load (peers store0) (Some 0) = Inr peer0"
  by (simp add: store0_def)

lemma store0_status: "load (statuses store0) (Status peer0) = Inr status0"
  by (simp add: store0_def peer0_def)

subsection \<open>Copy\<close>

text \<open>
  Claim C1, as amended. For a peer \<open>p\<close> whose fields, status and address bytes are observed
  as \<open>(pr, st, ip, cip)\<close>, \<^verbatim>\<open>Copy()\<close> returns a pointer \<open>c\<close> to a new peer: a cell
  allocated by the call, so different from \<open>p\<close> and from every peer of the store, all of
  which are left as they were, as are the status cells and the byte arrays. Every field of
  the copy equals the original's, the Status by the value it points to: the copy is observed
  as \<open>(pc, st, ip, cip)\<close> where \<open>pc\<close> is \<open>pr\<close> up to the Status pointer. That pointer is
  nil when the original's is, and otherwise the address of a status cell allocated by the
  call, different from the original's. Assigning any field of the copy never changes what is
  observed of \<open>p\<close>, assigning any field of the original never changes what is observed of the
  copy, and the same holds for assignments to the fields of the pointed-to status. Writes to
  the bytes of the IP address are not covered: the slice header is what is copied.
\<close>

theorem Peer_Copy_independent:
  assumes "Peer_view s p = Inr (pr, st, ip, cip)"
  shows "\<exists>c s' pc.
      Peer_Copy s p = Inr (c, s') \<and> c \<noteq> p
    \<and> c = Some (length (peers s))
    \<and> peers s' = peers s @ [pc]
    \<and> statuses s' = statuses s @ (case st of None \<Rightarrow> [] | Some x \<Rightarrow> [x])
    \<and> byte_arrays s' = byte_arrays s
    \<and> Peer_view s' p = Inr (pr, st, ip, cip)
    \<and> Peer_view s' c = Inr (pc, st, ip, cip)
    \<and> pc = pr\<lparr>Status := Status pc\<rparr>
    \<and> (Status pr = None \<longrightarrow> Status pc = None)
    \<and> (Status pr \<noteq> None \<longrightarrow>
          Status pc = Some (length (statuses s)) \<and> Status pc \<noteq> Status pr
        \<and> (\<forall>g. leaves (assign_Status_field s' c g) p (pr, st, ip, cip))
        \<and> (\<forall>g. leaves (assign_Status_field s' p g) c (pc, st, ip, cip)))
    \<and> (\<forall>f. leaves (assign_field s' c f) p (pr, st, ip, cip))
    \<and> (\<forall>f. leaves (assign_field s' p f) c (pc, st, ip, cip))"
proof (cases "Status pr")
  case None
  from Copy_nil_case [OF assms None] obtain c s' pc where
    "Peer_Copy s p = Inr (c, s')" "c \<noteq> p"
    "c = Some (length (peers s))" "peers s' = peers s @ [pc]"
    "statuses s' = statuses s @ (case st of None \<Rightarrow> [] | Some x \<Rightarrow> [x])"
    "byte_arrays s' = byte_arrays s"
    "Peer_view s' p = Inr (pr, st, ip, cip)" "Peer_view s' c = Inr (pc, st, ip, cip)"
    "pc = pr\<lparr>Status := Status pc\<rparr>" "Status pc = None"
    "\<forall>f. leaves (assign_field s' c f) p (pr, st, ip, cip)"
    "\<forall>f. leaves (assign_field s' p f) c (pc, st, ip, cip)"
    by blast
  with None show ?thesis
    by (intro exI [of _ c] exI [of _ s'] exI [of _ pc]) blast
next
  case (Some b)
  from Copy_Status_case [OF assms Some] obtain c s' pc where
    "Peer_Copy s p = Inr (c, s')" "c \<noteq> p"
    "c = Some (length (peers s))" "peers s' = peers s @ [pc]"
    "statuses s' = statuses s @ (case st of None \<Rightarrow> [] | Some x \<Rightarrow> [x])"
    "byte_arrays s' = byte_arrays s"
    "Peer_view s' p = Inr (pr, st, ip, cip)" "Peer_view s' c = Inr (pc, st, ip, cip)"
    "pc = pr\<lparr>Status := Status pc\<rparr>"
    "Status pc = Some (length (statuses s))" "Status pc \<noteq> Status pr"
    "\<forall>f. leaves (assign_field s' c f) p (pr, st, ip, cip)"
    "\<forall>f. leaves (assign_field s' p f) c (pc, st, ip, cip)"
    "\<forall>g. leaves (assign_Status_field s' c g) p (pr, st, ip, cip)"
    "\<forall>g. leaves (assign_Status_field s' p g) c (pc, st, ip, cip)"
    by blast
  moreover from Some have "Status pr \<noteq> None" by simp
  ultimately show ?thesis
    by (intro exI [of _ c] exI [of _ s'] exI [of _ pc]) blast
qed

theorem Peer_Copy_independent_witness:
  "Peer_view store0 (Some 0) = Inr (peer0, Some status0, [100, 64, 0, 1], [203, 0, 113, 7])
   \<and> (\<exists>c s' pc. Peer_Copy store0 (Some 0) = Inr (c, s') \<and> c \<noteq> Some 0 \<and> c = Some 1
        \<and> peers s' = [peer0, pc] \<and> statuses s' = [status0, status0]
        \<and> byte_arrays s' = [[100, 64, 0, 1], [203, 0, 113, 7]]
        \<and> Peer_view s' c = Inr (pc, Some status0, [100, 64, 0, 1], [203, 0, 113, 7])
        \<and> Status pc = Some 1
        \<and> leaves (assign_field s' c (\<lambda>r. r\<lparr>Name := ''host-b''\<rparr>)) (Some 0)
             (peer0, Some status0, [100, 64, 0, 1], [203, 0, 113, 7])
        \<and> leaves (assign_Status_field s' c (\<lambda>t. t\<lparr>Connected := False\<rparr>)) (Some 0)
             (peer0, Some status0, [100, 64, 0, 1], [203, 0, 113, 7]))"
proof -
  have h: "Peer_view store0 (Some 0)
             = Inr (peer0, Some status0, [100, 64, 0, 1], [203, 0, 113, 7])"
    by (rule store0_view)
  have n: "Status peer0 \<noteq> None" "length (statuses store0) = 1" "length (peers store0) = 1"
    "peers store0 = [peer0]" "statuses store0 = [status0]"
    "byte_arrays store0 = [[100, 64, 0, 1], [203, 0, 113, 7]]"
    by (simp_all add: peer0_def store0_def)
  from Peer_Copy_independent [OF h] n obtain c s' pc where
    "Peer_Copy store0 (Some 0) = Inr (c, s')" "c \<noteq> Some 0" "c = Some 1"
    "peers s' = [peer0, pc]" "statuses s' = [status0, status0]"
    "byte_arrays s' = [[100, 64, 0, 1], [203, 0, 113, 7]]"
    "Peer_view s' c = Inr (pc, Some status0, [100, 64, 0, 1], [203, 0, 113, 7])"
    "Status pc = Some 1"
    "\<forall>f. leaves (assign_field s' c f) (Some 0)
            (peer0, Some status0, [100, 64, 0, 1], [203, 0, 113, 7])"
    "\<forall>g. leaves (assign_Status_field s' c g) (Some 0)
            (peer0, Some status0, [100, 64, 0, 1], [203, 0, 113, 7])"
    by auto
  with h show ?thesis by blast
qed

text \<open>
  Claim C1 as it is stated, with the IP address among the things whose mutation never
  changes \<open>p\<close>, does not hold. The peer of \<open>store0\<close> has the address 100.64.0.1; after
  \<^verbatim>\<open>c := p.Copy(); c.IP[0] = 10\<close> the address read through \<open>p\<close> is 10.64.0.1.
\<close>

theorem Peer_Copy_shares_IP_bytes:
  "IP_bytes store0 (Some 0) = Inr [100, 64, 0, 1]
   \<and> IP_after_copy_write store0 (Some 0) 0 10 = Inr [10, 64, 0, 1]"
  by (simp add: IP_bytes_def IP_after_copy_write_def Peer_Copy_def PeerStatus_Copy_def
      assign_IP_byte_def slice_set_def slice_bytes_def store0_def peer0_def status0_def)

subsection \<open>UpdateMetaIfNew\<close>

text \<open>
  Claim C2 (UIVersion preservation). When the incoming UIVersion is empty, the call behaves
  as the call with the stored UIVersion put in its place, it returns, and the stored UIVersion
  is afterwards what it was; if moreover all other fields of the incoming metadata equal the
  stored ones, it returns false and changes nothing. When the incoming UIVersion is not empty
  and differs from the stored one, the call returns true and the stored UIVersion is the
  incoming one.
\<close>

theorem UpdateMetaIfNew_keeps_UIVersion:
  assumes "load (peers s) p = Inr pr"
  shows "(UIVersion m = '''' \<longrightarrow>
            UpdateMetaIfNew s p m = UpdateMetaIfNew s p (m\<lparr>UIVersion := UIVersion (Meta pr)\<rparr>)
          \<and> (\<exists>b s' pr'. UpdateMetaIfNew s p m = Inr (b, s') \<and> load (peers s') p = Inr pr'
                \<and> UIVersion (Meta pr') = UIVersion (Meta pr))
          \<and> (m\<lparr>UIVersion := UIVersion (Meta pr)\<rparr> = Meta pr \<longrightarrow>
                UpdateMetaIfNew s p m = Inr (False, s)))
       \<and> (UIVersion m \<noteq> '''' \<and> UIVersion m \<noteq> UIVersion (Meta pr) \<longrightarrow>
            (\<exists>s' pr'. UpdateMetaIfNew s p m = Inr (True, s') \<and> load (peers s') p = Inr pr'
                \<and> UIVersion (Meta pr') = UIVersion m))"
proof -
  from assms obtain a where a: "p = Some a" "a < length (peers s)" "peers s ! a = pr"
    by (rule load_InrE)
  have 1: "UpdateMetaIfNew s p m = UpdateMetaIfNew s p (m\<lparr>UIVersion := UIVersion (Meta pr)\<rparr>)"
    if "UIVersion m = ''''"
    using that a by (simp add: UpdateMetaIfNew_eval adjusted_def)
  have 2: "\<exists>b s' pr'. UpdateMetaIfNew s p m = Inr (b, s') \<and> load (peers s') p = Inr pr'
                \<and> UIVersion (Meta pr') = UIVersion (Meta pr)"
    if "UIVersion m = ''''"
    using that a by (auto simp: UpdateMetaIfNew_eval adjusted_def)
  have 3: "UpdateMetaIfNew s p m = Inr (False, s)"
    if "UIVersion m = ''''" "m\<lparr>UIVersion := UIVersion (Meta pr)\<rparr> = Meta pr"
    using that a by (simp add: UpdateMetaIfNew_eval adjusted_def)
  have 4: "\<exists>s' pr'. UpdateMetaIfNew s p m = Inr (True, s') \<and> load (peers s') p = Inr pr'
                \<and> UIVersion (Meta pr') = UIVersion m"
    if "UIVersion m \<noteq> ''''" "UIVersion m \<noteq> UIVersion (Meta pr)"
  proof -
    from that have "m \<noteq> Meta pr" by auto
    with that a show ?thesis by (simp add: UpdateMetaIfNew_eval adjusted_def)
  qed
  from 1 2 3 4 show ?thesis by blast
qed

theorem UpdateMetaIfNew_keeps_UIVersion_witness:
  "load (peers store0) (Some 0) = Inr peer0 \<and> UIVersion (Meta peer0) = ''1.2''
   \<and> UpdateMetaIfNew store0 (Some 0) (meta0\<lparr>UIVersion := ''''\<rparr>) = Inr (False, store0)
   \<and> (\<exists>s' pr'. UpdateMetaIfNew store0 (Some 0) (meta0\<lparr>UIVersion := ''1.3''\<rparr>) = Inr (True, s')
         \<and> load (peers s') (Some 0) = Inr pr' \<and> UIVersion (Meta pr') = ''1.3'')"
proof -
  have u: "UIVersion (Meta peer0) = ''1.2''"
    by (simp add: peer0_def meta0_def)
  have e: "UIVersion (meta0\<lparr>UIVersion := ''''\<rparr>) = ''''"
    "meta0\<lparr>UIVersion := ''''\<rparr>\<lparr>UIVersion := UIVersion (Meta peer0)\<rparr> = Meta peer0"
    by (simp_all add: peer0_def meta0_def)
  have n: "UIVersion (meta0\<lparr>UIVersion := ''1.3''\<rparr>) \<noteq> ''''"
    "UIVersion (meta0\<lparr>UIVersion := ''1.3''\<rparr>) \<noteq> UIVersion (Meta peer0)"
    "UIVersion (meta0\<lparr>UIVersion := ''1.3''\<rparr>) = ''1.3''"
    by (simp_all add: peer0_def meta0_def)
  from UpdateMetaIfNew_keeps_UIVersion [OF store0_peer, of "meta0\<lparr>UIVersion := ''''\<rparr>"] e
  have 1: "UpdateMetaIfNew store0 (Some 0) (meta0\<lparr>UIVersion := ''''\<rparr>) = Inr (False, store0)"
    by blast
  from UpdateMetaIfNew_keeps_UIVersion [OF store0_peer, of "meta0\<lparr>UIVersion := ''1.3''\<rparr>"]
    n(1,2)
  have "\<exists>s' pr'. UpdateMetaIfNew store0 (Some 0) (meta0\<lparr>UIVersion := ''1.3''\<rparr>) = Inr (True, s')
         \<and> load (peers s') (Some 0) = Inr pr'
         \<and> UIVersion (Meta pr') = UIVersion (meta0\<lparr>UIVersion := ''1.3''\<rparr>)"
    by blast
  then have 2: "\<exists>s' pr'. UpdateMetaIfNew store0 (Some 0) (meta0\<lparr>UIVersion := ''1.3''\<rparr>)
           = Inr (True, s')
         \<and> load (peers s') (Some 0) = Inr pr' \<and> UIVersion (Meta pr') = ''1.3''"
    unfolding n(3) .
  from store0_peer u 1 2 show ?thesis by blast
qed

text \<open>
  Claim C3 (write suppression). With \<open>m'\<close> the adjusted incoming metadata: when \<open>m'\<close> equals
  the stored metadata in all ten fields the call returns false and the store is unchanged;
  otherwise it returns true, and the peer is afterwards the old one with its Meta replaced
  by \<open>m'\<close>, nothing else in the store being touched.
\<close>

theorem UpdateMetaIfNew_result:
  assumes "load (peers s) p = Inr pr"
      and "m' = (if UIVersion m = '''' then m\<lparr>UIVersion := UIVersion (Meta pr)\<rparr> else m)"
  shows "(isEqual (Meta pr) m' \<longleftrightarrow> m' = Meta pr)
       \<and> (m' = Meta pr \<longrightarrow> UpdateMetaIfNew s p m = Inr (False, s))
       \<and> (m' \<noteq> Meta pr \<longrightarrow>
            (\<exists>s'. UpdateMetaIfNew s p m = Inr (True, s')
                \<and> load (peers s') p = Inr (pr\<lparr>Meta := m'\<rparr>)
                \<and> statuses s' = statuses s \<and> byte_arrays s' = byte_arrays s
                \<and> length (peers s') = length (peers s)))"
proof -
  from assms(1) obtain a where a: "p = Some a" "a < length (peers s)" "peers s ! a = pr"
    by (rule load_InrE)
  have m': "m' = adjusted (Meta pr) m"
    by (simp add: assms(2) adjusted_def)
  have eq: "isEqual (Meta pr) m' \<longleftrightarrow> m' = Meta pr"
    by (auto simp: isEqual_iff)
  have same: "UpdateMetaIfNew s p m = Inr (False, s)" if "m' = Meta pr"
    using that a m' by (simp add: UpdateMetaIfNew_eval)
  have diff: "\<exists>s'. UpdateMetaIfNew s p m = Inr (True, s')
                \<and> load (peers s') p = Inr (pr\<lparr>Meta := m'\<rparr>)
                \<and> statuses s' = statuses s \<and> byte_arrays s' = byte_arrays s
                \<and> length (peers s') = length (peers s)" if "m' \<noteq> Meta pr"
    using that a m' by (simp add: UpdateMetaIfNew_eval)
  from eq same diff show ?thesis by blast
qed

theorem UpdateMetaIfNew_result_witness:
  "load (peers store0) (Some 0) = Inr peer0
   \<and> UpdateMetaIfNew store0 (Some 0) meta0 = Inr (False, store0)
   \<and> (\<exists>s'. UpdateMetaIfNew store0 (Some 0) (meta0\<lparr>Hostname := ''host-b''\<rparr>) = Inr (True, s')
         \<and> load (peers s') (Some 0) = Inr (peer0\<lparr>Meta := meta0\<lparr>Hostname := ''host-b''\<rparr>\<rparr>))"
proof -
  have a1: "meta0 = (if UIVersion meta0 = '''' then meta0\<lparr>UIVersion := UIVersion (Meta peer0)\<rparr>
                     else meta0)"
    by (simp add: meta0_def)
  have e1: "meta0 = Meta peer0"
    by (simp add: peer0_def)
  have a2: "meta0\<lparr>Hostname := ''host-b''\<rparr> =
      (if UIVersion (meta0\<lparr>Hostname := ''host-b''\<rparr>) = ''''
       then meta0\<lparr>Hostname := ''host-b''\<rparr>\<lparr>UIVersion := UIVersion (Meta peer0)\<rparr>
       else meta0\<lparr>Hostname := ''host-b''\<rparr>)"
    by (simp add: meta0_def)
  have e2: "meta0\<lparr>Hostname := ''host-b''\<rparr> \<noteq> Meta peer0"
    by (simp add: peer0_def meta0_def)
  from UpdateMetaIfNew_result [OF store0_peer a1] e1
  have 1: "UpdateMetaIfNew store0 (Some 0) meta0 = Inr (False, store0)"
    by blast
  from UpdateMetaIfNew_result [OF store0_peer a2] e2
  have 2: "\<exists>s'. UpdateMetaIfNew store0 (Some 0) (meta0\<lparr>Hostname := ''host-b''\<rparr>) = Inr (True, s')
         \<and> load (peers s') (Some 0) = Inr (peer0\<lparr>Meta := meta0\<lparr>Hostname := ''host-b''\<rparr>\<rparr>)"
    by blast
  from store0_peer 1 2 show ?thesis by blast
qed

text \<open>
  Claim C4 (idempotence). The first of two calls with the same \<open>m\<close> returns true exactly
  when the adjusted metadata differs from the stored one, and leaves the adjusted metadata
  stored; the second call, on the resulting store, returns false and changes nothing.
\<close>

theorem UpdateMetaIfNew_twice:
  assumes "load (peers s) p = Inr pr"
  shows "\<exists>b s1. UpdateMetaIfNew s p m = Inr (b, s1)
           \<and> (b \<longleftrightarrow> adjusted (Meta pr) m \<noteq> Meta pr)
           \<and> load (peers s1) p = Inr (pr\<lparr>Meta := adjusted (Meta pr) m\<rparr>)
           \<and> UpdateMetaIfNew s1 p m = Inr (False, s1)"
proof -
  from assms obtain a where a: "p = Some a" "a < length (peers s)" "peers s ! a = pr"
    by (rule load_InrE)
  show ?thesis
  proof (cases "adjusted (Meta pr) m = Meta pr")
    case True
    then have "pr\<lparr>Meta := adjusted (Meta pr) m\<rparr> = pr" by simp
    with True a show ?thesis by (auto simp: UpdateMetaIfNew_eval)
  next
    case False
    let ?s1 = "s\<lparr>peers := (peers s)[a := pr\<lparr>Meta := adjusted (Meta pr) m\<rparr>]\<rparr>"
    have first: "UpdateMetaIfNew s p m = Inr (True, ?s1)"
      using False a by (simp add: UpdateMetaIfNew_eval)
    have second: "UpdateMetaIfNew ?s1 p m = Inr (False, ?s1)"
      using a by (simp add: UpdateMetaIfNew_eval adjusted_idem)
    from first second False a show ?thesis by auto
  qed
qed

theorem UpdateMetaIfNew_twice_witness:
  "load (peers store0) (Some 0) = Inr peer0
   \<and> (\<exists>s1. UpdateMetaIfNew store0 (Some 0) (meta0\<lparr>Hostname := ''host-b'', UIVersion := ''''\<rparr>)
              = Inr (True, s1)
         \<and> load (peers s1) (Some 0) = Inr (peer0\<lparr>Meta := meta0\<lparr>Hostname := ''host-b''\<rparr>\<rparr>)
         \<and> UpdateMetaIfNew s1 (Some 0) (meta0\<lparr>Hostname := ''host-b'', UIVersion := ''''\<rparr>)
              = Inr (False, s1))"
proof -
  have adj: "adjusted (Meta peer0) (meta0\<lparr>Hostname := ''host-b'', UIVersion := ''''\<rparr>)
               = meta0\<lparr>Hostname := ''host-b''\<rparr>"
    by (simp add: adjusted_def peer0_def meta0_def)
  have ne: "meta0\<lparr>Hostname := ''host-b''\<rparr> \<noteq> Meta peer0"
    by (simp add: peer0_def meta0_def)
  from UpdateMetaIfNew_twice [OF store0_peer,
      of "meta0\<lparr>Hostname := ''host-b'', UIVersion := ''''\<rparr>"]
  obtain b s1 where
    "UpdateMetaIfNew store0 (Some 0) (meta0\<lparr>Hostname := ''host-b'', UIVersion := ''''\<rparr>)
       = Inr (b, s1)"
    "b \<longleftrightarrow> meta0\<lparr>Hostname := ''host-b''\<rparr> \<noteq> Meta peer0"
    "load (peers s1) (Some 0) = Inr (peer0\<lparr>Meta := meta0\<lparr>Hostname := ''host-b''\<rparr>\<rparr>)"
    "UpdateMetaIfNew s1 (Some 0) (meta0\<lparr>Hostname := ''host-b'', UIVersion := ''''\<rparr>)
       = Inr (False, s1)"
    unfolding adj by blast
  with ne store0_peer show ?thesis by auto
qed

subsection \<open>Status transitions\<close>

text \<open>
  Claim C5 (MarkLoginExpired). For a peer with a status, the call returns, and the peer's
  Status then points to a cell allocated by the call, different from the one it pointed to:
  a copy of the previous status with LoginExpired set to the flag and Connected forced to
  false when the flag is true. The previously held status cell still holds the previous
  status.
\<close>

theorem MarkLoginExpired_snapshot:
  assumes "load (peers s) p = Inr pr" and "load (statuses s) (Status pr) = Inr st"
  shows "\<exists>s' a'. MarkLoginExpired s p expired = Inr s'
     \<and> load (peers s') p = Inr (pr\<lparr>Status := Some a'\<rparr>)
     \<and> Some a' \<noteq> Status pr \<and> a' = length (statuses s)
     \<and> load (statuses s') (Some a') =
           Inr \<lparr>LastSeen = LastSeen st,
                Connected = (if expired then False else Connected st),
                LoginExpired = expired,
                RequiresApproval = RequiresApproval st\<rparr>
     \<and> load (statuses s') (Status pr) = Inr st"
proof -
  from assms(1) obtain a where a: "p = Some a" "a < length (peers s)" "peers s ! a = pr"
    by (rule load_InrE)
  from assms(2) obtain b where
    b: "Status pr = Some b" "b < length (statuses s)" "statuses s ! b = st"
    by (rule load_InrE)
  show ?thesis
    unfolding MarkLoginExpired_def assms(1) sum.case PeerStatus_Copy_ok [OF assms(2)] prod.case
    using a b by (cases expired; cases st) (simp_all add: nth_append)
qed

theorem MarkLoginExpired_snapshot_witness:
  "load (peers (store0\<lparr>statuses := [status0\<lparr>LoginExpired := False\<rparr>]\<rparr>)) (Some 0) = Inr peer0
   \<and> load (statuses (store0\<lparr>statuses := [status0\<lparr>LoginExpired := False\<rparr>]\<rparr>)) (Status peer0)
        = Inr \<lparr>LastSeen = 900, Connected = True, LoginExpired = False, RequiresApproval = False\<rparr>
   \<and> (\<exists>s'. MarkLoginExpired (store0\<lparr>statuses := [status0\<lparr>LoginExpired := False\<rparr>]\<rparr>) (Some 0) True
              = Inr s'
         \<and> load (peers s') (Some 0) = Inr (peer0\<lparr>Status := Some 1\<rparr>)
         \<and> load (statuses s') (Some 1)
              = Inr \<lparr>LastSeen = 900, Connected = False, LoginExpired = True,
                     RequiresApproval = False\<rparr>
         \<and> load (statuses s') (Some 0)
              = Inr \<lparr>LastSeen = 900, Connected = True, LoginExpired = False,
                     RequiresApproval = False\<rparr>)"
proof -
  let ?s = "store0\<lparr>statuses := [status0\<lparr>LoginExpired := False\<rparr>]\<rparr>"
  let ?st = "\<lparr>LastSeen = 900 :: int, Connected = True, LoginExpired = False,
              RequiresApproval = False\<rparr>"
  have h1: "load (peers ?s) (Some 0) = Inr peer0"
    by (simp add: store0_def)
  have h2: "load (statuses ?s) (Status peer0) = Inr ?st"
    by (simp add: peer0_def status0_def)
  have n: "Status peer0 = Some 0" "length (statuses ?s) = 1"
    by (simp_all add: peer0_def)
  from MarkLoginExpired_snapshot [OF h1 h2, of True] obtain s' a' where
    "MarkLoginExpired ?s (Some 0) True = Inr s'"
    "load (peers s') (Some 0) = Inr (peer0\<lparr>Status := Some a'\<rparr>)"
    "a' = length (statuses ?s)"
    "load (statuses s') (Some a') =
       Inr \<lparr>LastSeen = LastSeen ?st, Connected = (if True then False else Connected ?st),
            LoginExpired = True, RequiresApproval = RequiresApproval ?st\<rparr>"
    "load (statuses s') (Status peer0) = Inr ?st"
    by blast
  with n have "MarkLoginExpired ?s (Some 0) True = Inr s'
      \<and> load (peers s') (Some 0) = Inr (peer0\<lparr>Status := Some 1\<rparr>)
      \<and> load (statuses s') (Some 1)
           = Inr \<lparr>LastSeen = 900, Connected = False, LoginExpired = True,
                  RequiresApproval = False\<rparr>
      \<and> load (statuses s') (Some 0) = Inr ?st"
    by simp
  with h1 h2 show ?thesis by blast
qed

text \<open>
  Claim C8 (UpdateLastLogin). For a peer with a status, the call returns the receiver
  itself; the peer's LastLogin is then the clock reading converted by \<^verbatim>\<open>UTC()\<close>, and its
  Status points to a cell allocated by the call that holds the previous status with
  LoginExpired false, whatever it was before.
\<close>

theorem UpdateLastLogin_resets:
  assumes "load (peers s) p = Inr pr" and "load (statuses s) (Status pr) = Inr st"
  shows "\<exists>s' a'. UpdateLastLogin tm now s p = Inr (p, s')
     \<and> load (peers s') p = Inr (pr\<lparr>LastLogin := time_UTC tm now, Status := Some a'\<rparr>)
     \<and> Some a' \<noteq> Status pr \<and> a' = length (statuses s)
     \<and> load (statuses s') (Some a') = Inr (st\<lparr>LoginExpired := False\<rparr>)
     \<and> load (statuses s') (Status pr) = Inr st"
proof -
  from assms(1) obtain a where a: "p = Some a" "a < length (peers s)" "peers s ! a = pr"
    by (rule load_InrE)
  from assms(2) obtain b where
    b: "Status pr = Some b" "b < length (statuses s)" "statuses s ! b = st"
    by (rule load_InrE)
  have cp: "PeerStatus_Copy (s\<lparr>peers := (peers s)[a := pr\<lparr>LastLogin := time_UTC tm now\<rparr>]\<rparr>)
              (Some b)
      = Inr (Some (length (statuses s)),
             s\<lparr>peers := (peers s)[a := pr\<lparr>LastLogin := time_UTC tm now\<rparr>],
               statuses := statuses s @ [st]\<rparr>)"
    using b by (simp add: PeerStatus_Copy_ok)
  show ?thesis
    unfolding UpdateLastLogin_def using a b by (simp add: Let_def cp nth_append)
qed

theorem UpdateLastLogin_resets_witness:
  "load (peers store0) (Some 0) = Inr peer0
   \<and> load (statuses store0) (Status peer0) = Inr status0 \<and> LoginExpired status0
   \<and> (\<exists>s'. UpdateLastLogin unix_time 5000 store0 (Some 0) = Inr (Some 0, s')
         \<and> load (peers s') (Some 0) = Inr (peer0\<lparr>LastLogin := 5000, Status := Some 1\<rparr>)
         \<and> load (statuses s') (Some 1) = Inr (status0\<lparr>LoginExpired := False\<rparr>))"
proof -
  have n: "length (statuses store0) = 1" "time_UTC unix_time 5000 = 5000"
    "LoginExpired status0"
    by (simp_all add: store0_def unix_time_def status0_def)
  from UpdateLastLogin_resets [OF store0_peer store0_status, of unix_time 5000]
  obtain s' a' where
    "UpdateLastLogin unix_time 5000 store0 (Some 0) = Inr (Some 0, s')"
    "load (peers s') (Some 0)
       = Inr (peer0\<lparr>LastLogin := time_UTC unix_time 5000, Status := Some a'\<rparr>)"
    "a' = length (statuses store0)"
    "load (statuses s') (Some a') = Inr (status0\<lparr>LoginExpired := False\<rparr>)"
    by blast
  with n have "UpdateLastLogin unix_time 5000 store0 (Some 0) = Inr (Some 0, s')
      \<and> load (peers s') (Some 0) = Inr (peer0\<lparr>LastLogin := 5000, Status := Some 1\<rparr>)
      \<and> load (statuses s') (Some 1) = Inr (status0\<lparr>LoginExpired := False\<rparr>)"
    by simp
  with store0_peer store0_status n(3) show ?thesis by blast
qed

text \<open>
  Claim C10 (frame of the status transitions). The status installed by
  \<^verbatim>\<open>MarkLoginExpired\<close> and the one installed by \<^verbatim>\<open>UpdateLastLogin\<close> have the LastSeen
  and RequiresApproval of the previous status; \<^verbatim>\<open>MarkLoginExpired(false)\<close> and
  \<^verbatim>\<open>UpdateLastLogin\<close> also keep its Connected flag.
\<close>

theorem Status_frame:
  assumes "load (peers s) p = Inr pr" and "load (statuses s) (Status pr) = Inr st"
  shows "(\<exists>s' pr' st'. MarkLoginExpired s p expired = Inr s'
            \<and> load (peers s') p = Inr pr' \<and> load (statuses s') (Status pr') = Inr st'
            \<and> LastSeen st' = LastSeen st \<and> RequiresApproval st' = RequiresApproval st
            \<and> (\<not> expired \<longrightarrow> Connected st' = Connected st))
       \<and> (\<exists>s' q pr' st'. UpdateLastLogin tm now s p = Inr (q, s')
            \<and> load (peers s') p = Inr pr' \<and> load (statuses s') (Status pr') = Inr st'
            \<and> LastSeen st' = LastSeen st \<and> RequiresApproval st' = RequiresApproval st
            \<and> Connected st' = Connected st)"
proof -
  from assms(1) obtain a where a: "p = Some a" "a < length (peers s)" "peers s ! a = pr"
    by (rule load_InrE)
  from assms(2) obtain b where
    b: "Status pr = Some b" "b < length (statuses s)" "statuses s ! b = st"
    by (rule load_InrE)
  have mark: "\<exists>s' pr' st'. MarkLoginExpired s p expired = Inr s'
            \<and> load (peers s') p = Inr pr' \<and> load (statuses s') (Status pr') = Inr st'
            \<and> LastSeen st' = LastSeen st \<and> RequiresApproval st' = RequiresApproval st
            \<and> (\<not> expired \<longrightarrow> Connected st' = Connected st)"
    unfolding MarkLoginExpired_def assms(1) sum.case PeerStatus_Copy_ok [OF assms(2)] prod.case
    using a b by (cases expired) (simp_all add: nth_append)
  have cp: "PeerStatus_Copy (s\<lparr>peers := (peers s)[a := pr\<lparr>LastLogin := time_UTC tm now\<rparr>]\<rparr>)
              (Some b)
      = Inr (Some (length (statuses s)),
             s\<lparr>peers := (peers s)[a := pr\<lparr>LastLogin := time_UTC tm now\<rparr>],
               statuses := statuses s @ [st]\<rparr>)"
    using b by (simp add: PeerStatus_Copy_ok)
  have upd: "\<exists>s' q pr' st'. UpdateLastLogin tm now s p = Inr (q, s')
            \<and> load (peers s') p = Inr pr' \<and> load (statuses s') (Status pr') = Inr st'
            \<and> LastSeen st' = LastSeen st \<and> RequiresApproval st' = RequiresApproval st
            \<and> Connected st' = Connected st"
    unfolding UpdateLastLogin_def using a b by (simp add: Let_def cp nth_append)
  from mark upd show ?thesis by (rule conjI)
qed

theorem Status_frame_witness:
  "load (peers store0) (Some 0) = Inr peer0
   \<and> load (statuses store0) (Status peer0) = Inr status0
   \<and> (\<exists>s' pr' st'. MarkLoginExpired store0 (Some 0) False = Inr s'
         \<and> load (peers s') (Some 0) = Inr pr' \<and> load (statuses s') (Status pr') = Inr st'
         \<and> LastSeen st' = 900 \<and> RequiresApproval st' = False \<and> Connected st' = True)
   \<and> (\<exists>s' q pr' st'. UpdateLastLogin unix_time 5000 store0 (Some 0) = Inr (q, s')
         \<and> load (peers s') (Some 0) = Inr pr' \<and> load (statuses s') (Status pr') = Inr st'
         \<and> LastSeen st' = 900 \<and> RequiresApproval st' = False \<and> Connected st' = True)"
proof -
  have n: "LastSeen status0 = 900" "RequiresApproval status0 = False"
    "Connected status0 = True"
    by (simp_all add: status0_def)
  from Status_frame [OF store0_peer store0_status, of False unix_time 5000]
  have "(\<exists>s' pr' st'. MarkLoginExpired store0 (Some 0) False = Inr s'
         \<and> load (peers s') (Some 0) = Inr pr' \<and> load (statuses s') (Status pr') = Inr st'
         \<and> LastSeen st' = 900 \<and> RequiresApproval st' = False \<and> Connected st' = True)
   \<and> (\<exists>s' q pr' st'. UpdateLastLogin unix_time 5000 store0 (Some 0) = Inr (q, s')
         \<and> load (peers s') (Some 0) = Inr pr' \<and> load (statuses s') (Status pr') = Inr st'
         \<and> LastSeen st' = 900 \<and> RequiresApproval st' = False \<and> Connected st' = True)"
    unfolding n by simp
  with store0_peer store0_status show ?thesis by blast
qed

subsection \<open>Login expiration\<close>

text \<open>
  Claim C6 (expiration gating). A peer whose UserID is empty, or whose
  LoginExpirationEnabled is false, is reported as not expired with no time left, whatever
  its LastLogin, the duration and the clock are.
\<close>

theorem LoginExpired_gating:
  assumes "load (peers s) p = Inr pr"
      and "UserID pr = '''' \<or> \<not> LoginExpirationEnabled pr"
  shows "Peer_LoginExpired tm now s p expiresIn = Inr (False, 0)"
  using assms by (auto simp: Peer_LoginExpired_def AddedWithSSOLogin_def)

theorem LoginExpired_gating_witness:
  "load (peers (store0\<lparr>peers := [peer0\<lparr>UserID := ''''\<rparr>]\<rparr>)) (Some 0) = Inr (peer0\<lparr>UserID := ''''\<rparr>)
   \<and> UserID (peer0\<lparr>UserID := ''''\<rparr>) = ''''
   \<and> Peer_LoginExpired unix_time (1000 + 7200000000000)
        (store0\<lparr>peers := [peer0\<lparr>UserID := ''''\<rparr>]\<rparr>) (Some 0) 3600000000000 = Inr (False, 0)"
proof -
  have h: "load (peers (store0\<lparr>peers := [peer0\<lparr>UserID := ''''\<rparr>]\<rparr>)) (Some 0)
             = Inr (peer0\<lparr>UserID := ''''\<rparr>)"
    by simp
  have u: "UserID (peer0\<lparr>UserID := ''''\<rparr>) = ''''"
    by simp
  from LoginExpired_gating [OF h disjI1 [OF u]] h u show ?thesis by blast
qed

text \<open>
  Claim C7, as amended. For a peer added with SSO login and with login expiration enabled,
  the time left is \<^verbatim>\<open>LastLogin.Add(expiresIn).Sub(now)\<close>, returned as it is together
  with the flag that says whether it is at most zero. With \<open>d\<close> the difference
  \<open>(LastLogin + expiresIn) - now\<close> in nanoseconds: the time left is \<open>d\<close> whenever \<open>d\<close> fits
  a Duration, and otherwise the end of the Duration range nearest to \<open>d\<close>; the flag is
  \<open>d \<le> 0\<close> in every case, and a negative \<open>d\<close> gives a negative time left, never zero.
\<close>

theorem LoginExpired_arithmetic:
  assumes "load (peers s) p = Inr pr"
      and "UserID pr \<noteq> ''''" and "LoginExpirationEnabled pr"
      and "d = (LastLogin pr + sint expiresIn) - now"
  shows "\<exists>timeLeft.
           Peer_LoginExpired unix_time now s p expiresIn = Inr (sint timeLeft \<le> 0, timeLeft)
         \<and> timeLeft = time_Sub unix_time (time_Add unix_time (LastLogin pr) expiresIn) now
         \<and> sint timeLeft = max (- (2 ^ 63)) (min (2 ^ 63 - 1) d)
         \<and> (- (2 ^ 63) \<le> d \<and> d < 2 ^ 63 \<longrightarrow> sint timeLeft = d)
         \<and> (sint timeLeft \<le> 0 \<longleftrightarrow> d \<le> 0)
         \<and> (d < 0 \<longrightarrow> sint timeLeft < 0)"
proof -
  let ?t = "time_Sub unix_time (time_Add unix_time (LastLogin pr) expiresIn) now"
  have r: "Peer_LoginExpired unix_time now s p expiresIn = Inr (sint ?t \<le> 0, ?t)"
    using assms(1-3) by (rule Peer_LoginExpired_enabled)
  have t: "?t = clamp_Duration d"
    by (simp add: unix_time_def assms(4))
  have v: "sint ?t = max (- (2 ^ 63)) (min (2 ^ 63 - 1) d)"
    unfolding t by (rule sint_clamp_Duration)
  have 1: "sint ?t = d" if "- (2 ^ 63) \<le> d \<and> d < 2 ^ 63"
    using that v by simp
  have 2: "sint ?t \<le> 0 \<longleftrightarrow> d \<le> 0"
    using v by (auto simp: max_def min_def)
  have 3: "sint ?t < 0" if "d < 0"
    using that v by simp
  from r v 1 2 3 show ?thesis by blast
qed

theorem LoginExpired_arithmetic_witness:
  "load (peers store0) (Some 0) = Inr peer0
   \<and> UserID peer0 \<noteq> '''' \<and> LoginExpirationEnabled peer0 \<and> LastLogin peer0 = 1000
   \<and> Peer_LoginExpired unix_time (1000 + 7200000000000) store0 (Some 0) 3600000000000
        = Inr (True, - 3600000000000)"
proof -
  have u: "UserID peer0 \<noteq> ''''" "LoginExpirationEnabled peer0" "LastLogin peer0 = 1000"
    by (simp_all add: peer0_def)
  have d: "(- 3600000000000 :: int)
      = (LastLogin peer0 + sint (3600000000000 :: Duration)) - (1000 + 7200000000000)"
    by (simp add: peer0_def)
  have w: "time_Sub unix_time (time_Add unix_time (LastLogin peer0) 3600000000000)
             (1000 + 7200000000000) = (- 3600000000000 :: Duration)"
    by (simp add: unix_time_def clamp_Duration_def peer0_def)
  from LoginExpired_arithmetic [OF store0_peer u(1,2) d] obtain timeLeft where
    "Peer_LoginExpired unix_time (1000 + 7200000000000) store0 (Some 0) 3600000000000
       = Inr (sint timeLeft \<le> 0, timeLeft)"
    "timeLeft = time_Sub unix_time (time_Add unix_time (LastLogin peer0) 3600000000000)
                  (1000 + 7200000000000)"
    "sint timeLeft \<le> 0 \<longleftrightarrow> (- 3600000000000 :: int) \<le> 0"
    by blast
  then have "Peer_LoginExpired unix_time (1000 + 7200000000000) store0 (Some 0) 3600000000000
          = Inr (True, - 3600000000000)"
    unfolding w by simp
  with store0_peer u show ?thesis by blast
qed

text \<open>
  Claim C7 as it is stated, the time left being \<open>(LastLogin + expiresIn) - now\<close> for every
  peer, does not hold. A peer whose LastLogin is the zero \<^verbatim>\<open>Time\<close>, asked with a duration
  of one hour at 1700000000 seconds after the epoch, is 63835593200 seconds past its
  expiration; the time left returned is the smallest Duration, \<open>- 9223372036854775808\<close>
  nanoseconds.
\<close>

theorem LoginExpired_saturates:
  "Peer_LoginExpired unix_time 1700000000000000000
     (store0\<lparr>peers := [peer0\<lparr>LastLogin := - 62135596800000000000\<rparr>]\<rparr>) (Some 0) 3600000000000
     = Inr (True, - 9223372036854775808)
   \<and> sint (- 9223372036854775808 :: Duration)
       \<noteq> (- 62135596800000000000 + sint (3600000000000 :: Duration)) - 1700000000000000000"
  by (simp add: Peer_LoginExpired_def AddedWithSSOLogin_def Let_def unix_time_def
      clamp_Duration_def peer0_def)

text \<open>
  The example of the specification at every instant \<open>T\<close>, on the instance \<open>unix_time\<close>:
  last login at \<open>T\<close>, a duration of one hour and a clock reading of \<open>T\<close> plus two hours
  give expired, with minus one hour left.
\<close>

lemma LoginExpired_one_hour_late:
  assumes "load (peers s) p = Inr pr"
      and "UserID pr \<noteq> ''''" and "LoginExpirationEnabled pr" and "LastLogin pr = T"
  shows "Peer_LoginExpired unix_time (T + 7200000000000) s p 3600000000000
           = Inr (True, - 3600000000000)"
  using assms
  by (auto simp: Peer_LoginExpired_def AddedWithSSOLogin_def Let_def unix_time_def
      clamp_Duration_def)

subsection \<open>FQDN\<close>

text \<open>
  Claim C9 (FQDN). For an empty domain the result is the empty string, whatever the DNS
  label is; for any other domain it is the label, a dot and the domain.
\<close>

theorem FQDN_empty_or_joined:
  assumes "load (peers s) p = Inr pr"
  shows "(dnsDomain = '''' \<longrightarrow> Peer_FQDN s p dnsDomain = Inr '''')
       \<and> (dnsDomain \<noteq> '''' \<longrightarrow>
            Peer_FQDN s p dnsDomain = Inr (DNSLabel pr @ ''.'' @ dnsDomain))"
  using assms by (simp add: Peer_FQDN_def)

theorem FQDN_empty_or_joined_witness:
  "load (peers store0) (Some 0) = Inr peer0
   \<and> Peer_FQDN store0 (Some 0) '''' = Inr ''''
   \<and> Peer_FQDN store0 (Some 0) ''netbird.cloud'' = Inr ''host-a.netbird.cloud''"
proof -
  have d: "DNSLabel peer0 @ ''.'' @ ''netbird.cloud'' = ''host-a.netbird.cloud''"
    by (simp add: peer0_def)
  from FQDN_empty_or_joined [OF store0_peer, of "''''"]
  have 1: "Peer_FQDN store0 (Some 0) '''' = Inr ''''"
    by simp
  from FQDN_empty_or_joined [OF store0_peer, of "''netbird.cloud''"]
  have 2: "Peer_FQDN store0 (Some 0) ''netbird.cloud'' = Inr ''host-a.netbird.cloud''"
    unfolding d by simp
  from store0_peer 1 2 show ?thesis by blast
qed

end
